theory Spec2Isabelle
  imports Main "HOL-Library.Sublist"
begin

section \<open>Strings of the Go standard library\<close>

text \<open>
  A Go \<^verbatim>\<open>string\<close> is a sequence of bytes; it is modelled as \<^typ>\<open>string\<close>, one
  \<^typ>\<open>char\<close> per byte. \<^verbatim>\<open>strings.HasPrefix(s, prefix)\<close> is
  \<^verbatim>\<open>len(s) >= len(prefix) && s[:len(prefix)] == prefix\<close>.
\<close>

definition HasPrefix :: "string \<Rightarrow> string \<Rightarrow> bool" where
  "HasPrefix s p = (length p \<le> length s \<and> take (length p) s = p)"

section \<open>Credentials and expiry (pkg/container/info.go)\<close>

text \<open>
  Modelled from the spec: the declaration of the type \<^verbatim>\<open>Credentials\<close> is not among the
  sources; the functions below read only its nested field
  \<^verbatim>\<open>ClaudeAiOauth.ExpiresAt\<close>, an expiry in epoch milliseconds. The field is compared
  with \<^verbatim>\<open>time.Now().UnixMilli()\<close>, an \<^verbatim>\<open>int64\<close>; the code only compares these
  numbers and never adds to them, so they are modelled as \<^typ>\<open>int\<close>.
\<close>

record OAuth =
  ExpiresAt :: int

record Credentials =
  ClaudeAiOauth :: OAuth

text \<open>
  \<^verbatim>\<open>IsTokenExpired\<close> reads the clock once; the reading \<open>now\<close> (milliseconds since the
  epoch) is a parameter of the model.
\<close>

definition IsTokenExpired :: "Credentials \<Rightarrow> int \<Rightarrow> bool" where
  "IsTokenExpired creds currentTimeMs = (ExpiresAt (ClaudeAiOauth creds) < currentTimeMs)"

definition mkCreds :: "int \<Rightarrow> Credentials" where
  "mkCreds e = \<lparr>ClaudeAiOauth = \<lparr>ExpiresAt = e\<rparr>\<rparr>"

section \<open>Short names\<close>

definition GetShortName :: "string \<Rightarrow> string \<Rightarrow> string" where
  "GetShortName containerName pfx =
     (if HasPrefix containerName pfx then drop (length pfx) containerName
      else containerName)"

section \<open>Registry rows (GetRunningContainers, GetAllContainers)\<close>

text \<open>
  \<^verbatim>\<open>strings.Split(s, sep)\<close> for a separator of one byte: the pieces between the
  occurrences of the separator, one more piece than there are separators, so that
  the empty string gives one empty piece.
\<close>

fun Split :: "char \<Rightarrow> string \<Rightarrow> string list" where
  "Split c [] = [[]]"
| "Split c (x # xs) =
     (if x = c then [] # Split c xs
      else (case Split c xs of [] \<Rightarrow> [[x]] | l # ls \<Rightarrow> (x # l) # ls))"

definition nl :: char where
  "nl = CHR 0x0A"

definition tab :: char where
  "tab = CHR 0x09"

text \<open>
  A \<^verbatim>\<open>time.Time\<close> is modelled as an instant in milliseconds since the Unix epoch.
  The instants of this program come from \<^verbatim>\<open>time.UnixMilli\<close>, from \<^verbatim>\<open>time.Parse\<close>
  or are the zero value \<^verbatim>\<open>time.Time{}\<close>, which is January 1 of year 1, 00:00 UTC:
  62135596800 seconds before the epoch.
\<close>

type_synonym Time = int

definition zeroTime :: Time where
  "zeroTime = - 62135596800000"

definition UnixMilli :: "int \<Rightarrow> Time" where
  "UnixMilli msec = msec"

definition After :: "Time \<Rightarrow> Time \<Rightarrow> bool" where
  "After t u = (u < t)"

record basicInfo =
  name :: string
  status :: string
  state :: string
  createdAt :: Time

text \<open>
  One round of the parsing loop, the same text in both functions. \<^verbatim>\<open>time.Parse\<close>
  with the layout \<^verbatim>\<open>2006-01-02 15:04:05 -0700 MST\<close> belongs to the standard library and
  is the parameter \<open>timeParse\<close> (\<open>None\<close> when it returns an error). The result is
  \<open>None\<close> where the loop says \<^verbatim>\<open>continue\<close>.
\<close>

definition parseRow :: "(string \<Rightarrow> Time option) \<Rightarrow> string \<Rightarrow> string \<Rightarrow> basicInfo option" where
  "parseRow timeParse pfx line =
     (if line = [] then None
      else let parts = Split tab line in
        if length parts < 4 then None
        else let nm = parts ! 0 in
          if \<not> HasPrefix nm pfx then None
          else Some \<lparr>name = nm, status = parts ! 1, state = parts ! 2,
                      createdAt = (case timeParse (parts ! 3) of
                                     None \<Rightarrow> zeroTime
                                   | Some t \<Rightarrow> t)\<rparr>)"

text \<open>The loop over the lines; \<open>basics\<close> is the slice built so far.\<close>

fun parseLoop ::
  "(string \<Rightarrow> Time option) \<Rightarrow> string \<Rightarrow> basicInfo list \<Rightarrow> string list \<Rightarrow> basicInfo list" where
  "parseLoop timeParse pfx basics [] = basics"
| "parseLoop timeParse pfx basics (line # rest) =
     (case parseRow timeParse pfx line of
        None \<Rightarrow> parseLoop timeParse pfx basics rest
      | Some b \<Rightarrow> parseLoop timeParse pfx (basics @ [b]) rest)"

definition parseBasics :: "(string \<Rightarrow> Time option) \<Rightarrow> string \<Rightarrow> string \<Rightarrow> basicInfo list" where
  "parseBasics timeParse pfx output = parseLoop timeParse pfx [] (Split nl output)"

section \<open>Detail probes\<close>

text \<open>
  Everything a probe asks of the world outside the program is a field of the record
  \<open>probes\<close>: the outcome of each \<^verbatim>\<open>docker\<close> command for a container name (\<open>None\<close>
  or \<open>False\<close> when \<^verbatim>\<open>Output\<close> or \<^verbatim>\<open>Run\<close> returns an error), what
  \<^verbatim>\<open>ReadCredentials\<close> finds in the extracted file, and the clock. Durations are
  \<^verbatim>\<open>time.Duration\<close> values, a number of nanoseconds. The renderings of a duration as a
  floating-point number (\<^verbatim>\<open>%.1f\<close> of \<^verbatim>\<open>d.Hours()\<close> and the like) are fields too.
\<close>

record probes =
  branchOut :: "string \<Rightarrow> string option"
  bellOut :: "string \<Rightarrow> string option"
  psOut :: "string \<Rightarrow> string option"
  credCopy :: "string \<Rightarrow> bool"
  credRead :: "string \<Rightarrow> Credentials option"
  nowMs :: int
  untilExpiry :: "Credentials \<Rightarrow> int"
  activityOut :: "string \<Rightarrow> string option"
  sinceUnix :: "int \<Rightarrow> int"
  gitDirCheck :: "string \<Rightarrow> bool"
  gitDirtyOut :: "string \<Rightarrow> string option"
  gitAheadOut :: "string \<Rightarrow> string option"
  gitBehindOut :: "string \<Rightarrow> string option"
  fmtSeconds0 :: "int \<Rightarrow> string"
  fmtMinutes0 :: "int \<Rightarrow> string"
  fmtHours1 :: "int \<Rightarrow> string"
  fmtDays1 :: "int \<Rightarrow> string"
  psListing :: "string option"
  psAllListing :: "string option"
  timeParse :: "string \<Rightarrow> Time option"

text \<open>
  \<^verbatim>\<open>strings.TrimSpace\<close> on the bytes that are white space in ASCII (the outputs trimmed
  here are those of git, tmux, ps and wc).
\<close>

definition isSpace :: "char \<Rightarrow> bool" where
  "isSpace c = (c = CHR 0x09 \<or> c = CHR 0x0A \<or> c = CHR 0x0B \<or> c = CHR 0x0C
                \<or> c = CHR 0x0D \<or> c = CHR 0x20)"

definition TrimSpace :: "string \<Rightarrow> string" where
  "TrimSpace s = rev (dropWhile isSpace (rev (dropWhile isSpace s)))"

definition GetBranchName :: "probes \<Rightarrow> string \<Rightarrow> string" where
  "GetBranchName w containerName =
     (case branchOut w containerName of
        None \<Rightarrow> ''unknown''
      | Some output \<Rightarrow> TrimSpace output)"

fun bellLoop :: "string list \<Rightarrow> bool" where
  "bellLoop [] = False"
| "bellLoop (line # rest) =
     (let parts = Split (CHR '':'') (TrimSpace line) in
      if length parts = 2 \<and> (parts ! 0 = ''1'' \<or> parts ! 1 = ''1'') then True
      else bellLoop rest)"

definition CheckBellStatus :: "probes \<Rightarrow> string \<Rightarrow> bool" where
  "CheckBellStatus w containerName =
     (case bellOut w containerName of
        None \<Rightarrow> False
      | Some output \<Rightarrow> bellLoop (Split nl output))"

definition IsClaudeRunning :: "probes \<Rightarrow> string \<Rightarrow> bool" where
  "IsClaudeRunning w containerName =
     (case psOut w containerName of
        None \<Rightarrow> False
      | Some output \<Rightarrow> TrimSpace output \<noteq> [])"

text \<open>The marks are written in UTF-8: a cross, a warning sign, a check mark.\<close>

definition crossMark :: string where
  "crossMark = [CHR 0xE2, CHR 0x9C, CHR 0x97]"

definition warnMark :: string where
  "warnMark = [CHR 0xE2, CHR 0x9A, CHR 0xA0]"

definition checkMark :: string where
  "checkMark = [CHR 0xE2, CHR 0x9C, CHR 0x93]"

definition hour :: int where
  "hour = 3600 * 1000000000"

definition minute :: int where
  "minute = 60 * 1000000000"

definition GetAuthStatus :: "probes \<Rightarrow> string \<Rightarrow> string" where
  "GetAuthStatus w containerName =
     (if \<not> credCopy w containerName then crossMark @ '' NO AUTH''
      else case credRead w containerName of
        None \<Rightarrow> crossMark @ '' INVALID''
      | Some creds \<Rightarrow>
          if IsTokenExpired creds (nowMs w) then crossMark @ '' EXPIRED''
          else let duration = untilExpiry w creds in
            if duration < 24 * hour then warnMark @ '' '' @ fmtHours1 w duration @ ''h''
            else checkMark @ '' '' @ fmtHours1 w duration @ ''h'')"

text \<open>
  \<^verbatim>\<open>strconv.ParseInt(s, 10, 64)\<close>: an optional sign, then at least one decimal digit
  and nothing else; a value outside the 64-bit range is an error.
\<close>

definition digitVal :: "char \<Rightarrow> int option" where
  "digitVal c = (let n = (of_char c :: nat) in
                  if 48 \<le> n \<and> n \<le> 57 then Some (int n - 48) else None)"

fun parseDigits :: "int \<Rightarrow> string \<Rightarrow> int option" where
  "parseDigits acc [] = Some acc"
| "parseDigits acc (c # cs) =
     (case digitVal c of
        None \<Rightarrow> None
      | Some d \<Rightarrow> parseDigits (acc * 10 + d) cs)"

definition ParseInt :: "string \<Rightarrow> int option" where
  "ParseInt s =
     (case s of
        [] \<Rightarrow> None
      | c # cs \<Rightarrow>
          let neg = (c = CHR ''-'');
              ds = (if c = CHR ''+'' \<or> c = CHR ''-'' then cs else s)
          in if ds = [] then None
             else case parseDigits 0 ds of
               None \<Rightarrow> None
             | Some un \<Rightarrow>
                 if \<not> neg \<and> 2 ^ 63 \<le> un then None
                 else if neg \<and> 2 ^ 63 < un then None
                 else Some (if neg then - un else un))"

definition formatDuration :: "probes \<Rightarrow> int \<Rightarrow> string" where
  "formatDuration w d =
     (if d < minute then fmtSeconds0 w d @ ''s''
      else if d < hour then fmtMinutes0 w d @ ''m''
      else if d < 24 * hour then fmtHours1 w d @ ''h''
      else fmtDays1 w d @ ''d'')"

definition GetLastActivity :: "probes \<Rightarrow> string \<Rightarrow> string" where
  "GetLastActivity w containerName =
     (case activityOut w containerName of
        None \<Rightarrow> ''-''
      | Some output \<Rightarrow>
          (case ParseInt (TrimSpace output) of
             None \<Rightarrow> ''-''
           | Some timestamp \<Rightarrow> formatDuration w (sinceUnix w timestamp)))"

definition padGitStatus :: "string \<Rightarrow> string" where
  "padGitStatus st =
     (if 10 \<le> length st then st else st @ replicate (10 - length st) (CHR '' ''))"

fun Join :: "string list \<Rightarrow> string \<Rightarrow> string" where
  "Join [] sep = []"
| "Join [x] sep = x"
| "Join (x # y # ys) sep = x @ sep @ Join (y # ys) sep"

definition GetGitStatus :: "probes \<Rightarrow> string \<Rightarrow> string" where
  "GetGitStatus w containerName =
     (if \<not> gitDirCheck w containerName then padGitStatus ''-''
      else
        let i1 = (case gitDirtyOut w containerName of
                    None \<Rightarrow> []
                  | Some output \<Rightarrow>
                      let count = TrimSpace output in
                      if count \<noteq> ''0'' then [[CHR 0xCE, CHR 0x94] @ count] else []);
            i2 = (case gitAheadOut w containerName of
                    None \<Rightarrow> []
                  | Some output \<Rightarrow>
                      let count = TrimSpace output in
                      if count \<noteq> ''0'' \<and> count \<noteq> [] then [[CHR 0xE2, CHR 0x86, CHR 0x91] @ count]
                      else []);
            i3 = (case gitBehindOut w containerName of
                    None \<Rightarrow> []
                  | Some output \<Rightarrow>
                      let count = TrimSpace output in
                      if count \<noteq> ''0'' \<and> count \<noteq> [] then [[CHR 0xE2, CHR 0x86, CHR 0x93] @ count]
                      else []);
            indicators = i1 @ i2 @ i3
        in if length indicators = 0 then padGitStatus checkMark
           else padGitStatus (Join indicators '' ''))"

section \<open>The composite record\<close>

text \<open>
  Modelled from the spec: the declaration of the type \<^verbatim>\<open>Info\<close> is not among the
  sources; these are the fields the two functions assign, string fields empty and
  flags false where a function assigns nothing.

  Each row is filled by goroutines that assign distinct fields of the row under its
  mutex and are all awaited, and each row is stored at its own index: the record that
  results is the one the assignments give in any order, written here in source order.
\<close>

record Info =
  Name :: string
  ShortName :: string
  Status :: string
  StatusDetails :: string
  CreatedAt :: Time
  Branch :: string
  NeedsAttention :: bool
  IsDormant :: bool
  AuthStatus :: string
  LastActivity :: string
  GitStatus :: string

datatype error =
  EngineUnavailable
| NoCredentialsFound
| AllCredentialsExpired
| NilDereference
| StatusCheckFailed
| NotRunning
| AppendFailed
| RestartFailed

definition runningRow :: "probes \<Rightarrow> string \<Rightarrow> basicInfo \<Rightarrow> Info" where
  "runningRow w pfx basic =
     \<lparr>Name = name basic, ShortName = GetShortName (name basic) pfx,
      Status = state basic, StatusDetails = status basic, CreatedAt = createdAt basic,
      Branch = GetBranchName w (name basic),
      NeedsAttention = CheckBellStatus w (name basic),
      IsDormant = (\<not> IsClaudeRunning w (name basic)),
      AuthStatus = [], LastActivity = [], GitStatus = []\<rparr>"

definition GetRunningContainers :: "probes \<Rightarrow> string \<Rightarrow> error + Info list" where
  "GetRunningContainers w pfx =
     (case psListing w of
        None \<Rightarrow> Inl EngineUnavailable
      | Some output \<Rightarrow> Inr (map (runningRow w pfx) (parseBasics (timeParse w) pfx output)))"

definition allRow :: "probes \<Rightarrow> string \<Rightarrow> basicInfo \<Rightarrow> Info" where
  "allRow w pfx basic =
     (let info = \<lparr>Name = name basic, ShortName = GetShortName (name basic) pfx,
                  Status = state basic, StatusDetails = status basic,
                  CreatedAt = createdAt basic, Branch = [], NeedsAttention = False,
                  IsDormant = False, AuthStatus = [], LastActivity = ''-'',
                  GitStatus = ''-''\<rparr>
      in if state basic = ''running''
         then info\<lparr>Branch := GetBranchName w (name basic),
                   NeedsAttention := CheckBellStatus w (name basic),
                   IsDormant := (\<not> IsClaudeRunning w (name basic)),
                   AuthStatus := GetAuthStatus w (name basic),
                   LastActivity := GetLastActivity w (name basic),
                   GitStatus := GetGitStatus w (name basic)\<rparr>
         else info\<lparr>Branch := GetBranchName w (name basic)\<rparr>)"

definition GetAllContainers :: "probes \<Rightarrow> string \<Rightarrow> error + Info list" where
  "GetAllContainers w pfx =
     (case psAllListing w of
        None \<Rightarrow> Inl EngineUnavailable
      | Some output \<Rightarrow> Inr (map (allRow w pfx) (parseBasics (timeParse w) pfx output)))"

section \<open>Listings\<close>

text \<open>
  What \<^verbatim>\<open>docker ps --format\<close> prints for a list of containers: one line per
  container, the four fields separated by tabs, each line ended by a newline. A row is
  well formed when no field holds a tab or a newline. \<open>basicOf\<close> is the record the
  parsing loop builds from such a row. \<open>fullRow\<close> is the test of the loop on a line:
  not empty, at least four fields. \<open>deadWorld\<close> is a world where the listing command
  prints the given text and every probe fails; \<open>scenarioC\<close> and \<open>raggedListing\<close>
  are two listings used as examples.
\<close>

type_synonym row = "string \<times> string \<times> string \<times> string"

definition rowLine :: "row \<Rightarrow> string" where
  "rowLine r = (case r of (n, st, s, c) \<Rightarrow> n @ tab # st @ tab # s @ tab # c)"

definition listingOf :: "row list \<Rightarrow> string" where
  "listingOf rows = concat (map (\<lambda>r. rowLine r @ [nl]) rows)"

definition plainField :: "string \<Rightarrow> bool" where
  "plainField f = (tab \<notin> set f \<and> nl \<notin> set f)"

definition wellFormedRow :: "row \<Rightarrow> bool" where
  "wellFormedRow r = (case r of (n, st, s, c) \<Rightarrow> plainField n \<and> plainField st \<and> plainField s \<and> plainField c)"

definition basicOf :: "(string \<Rightarrow> Time option) \<Rightarrow> row \<Rightarrow> basicInfo" where
  "basicOf tp r = (case r of (n, st, s, c) \<Rightarrow> \<lparr>name = n, status = st, state = s, createdAt = (case tp c of None \<Rightarrow> zeroTime | Some t \<Rightarrow> t)\<rparr>)"

definition deadWorld :: "string \<Rightarrow> probes" where
  "deadWorld listing =
     \<lparr>branchOut = (\<lambda>_. None), bellOut = (\<lambda>_. None), psOut = (\<lambda>_. None),
      credCopy = (\<lambda>_. False), credRead = (\<lambda>_. None), nowMs = 0,
      untilExpiry = (\<lambda>_. 0), activityOut = (\<lambda>_. None), sinceUnix = (\<lambda>_. 0),
      gitDirCheck = (\<lambda>_. False), gitDirtyOut = (\<lambda>_. None), gitAheadOut = (\<lambda>_. None),
      gitBehindOut = (\<lambda>_. None), fmtSeconds0 = (\<lambda>_. []), fmtMinutes0 = (\<lambda>_. []),
      fmtHours1 = (\<lambda>_. []), fmtDays1 = (\<lambda>_. []),
      psListing = Some listing, psAllListing = Some listing, timeParse = (\<lambda>_. None)\<rparr>"

definition scenarioC :: "row list" where
  "scenarioC = [(''mcl-foo'', ''Up 2 hours'', ''running'', ''2025-01-02 15:04:05 -0700 MST''),
                (''other-bar'', ''Up 3 hours'', ''running'', ''2025-01-02 16:04:05 -0700 MST''),
                (''mcl-baz'', ''Exited (0) 1 hour ago'', ''exited'', ''yesterday'')]"

definition fullRow :: "string \<Rightarrow> bool" where
  "fullRow line = (line \<noteq> [] \<and> 4 \<le> length (Split tab line))"

definition raggedListing :: string where
  "raggedListing = [nl] @ ''mcl-short'' @ [tab] @ ''Up 1 hour'' @ [nl]
                   @ ''mcl-ok'' @ [tab] @ ''Up 2 hours'' @ [tab] @ ''running'' @ [tab] @ ''now'' @ [nl] @ [nl]"

section \<open>The freshness reconciler (cmd/refresh-tokens.go)\<close>

text \<open>
  A \<open>tokenSource\<close> as in the source; \<open>creds\<close> is a pointer, \<open>None\<close> when nil. The
  zero value of the struct has empty strings, a nil pointer and the zero instant.
\<close>

record tokenSource =
  location :: string
  path :: string
  creds :: "Credentials option"
  expiresAt :: Time

definition zeroSource :: tokenSource where
  "zeroSource = \<lparr>location = [], path = [], creds = None, expiresAt = zeroTime\<rparr>"

text \<open>
  The world of one pass. \<open>hostCreds\<close> is what \<^verbatim>\<open>ReadCredentials(hostCredPath)\<close>
  returns (\<open>None\<close> on an error); \<open>world\<close> and \<open>legacyWorld\<close> are the worlds seen by the
  first and by the second call of \<^verbatim>\<open>GetRunningContainers\<close>; \<open>extractOk\<close> tells whether
  \<^verbatim>\<open>docker cp\<close> out of a container succeeds and \<open>tmpCreds\<close> what is read from the copy;
  \<open>clockMs\<close> is the clock read by \<^verbatim>\<open>IsTokenExpired\<close>; \<open>hostWriteOk\<close>,
  \<open>injectOk\<close> and \<open>chownOk\<close> tell whether the writes of the last step succeed. The
  outcome of a command is taken as a function of its arguments. Printing is left out.
\<close>

record recon =
  hostCredPath :: string
  tmpFileOf :: "string \<Rightarrow> string"
  configPrefix :: string
  hostCreds :: "Credentials option"
  world :: probes
  legacyWorld :: probes
  extractOk :: "string \<Rightarrow> bool"
  tmpCreds :: "string \<Rightarrow> Credentials option"
  clockMs :: int
  hostWriteOk :: "string \<Rightarrow> bool"
  injectOk :: "string \<Rightarrow> string \<Rightarrow> bool"
  chownOk :: "string \<Rightarrow> bool"

text \<open>The commands that write to a replica, in the order they are issued.\<close>

datatype action =
  WriteHost string
| CopyIn string string
| Chown string

record outcome =
  result :: "error + nat"
  writes :: "action list"

text \<open>Step 1: the host replica.\<close>

definition hostSource :: "recon \<Rightarrow> tokenSource list" where
  "hostSource e =
     (case hostCreds e of
        Some hc \<Rightarrow> [\<lparr>location = ''host'', path = hostCredPath e, creds = Some hc,
                     expiresAt = UnixMilli (ExpiresAt (ClaudeAiOauth hc))\<rparr>]
      | None \<Rightarrow> [])"

text \<open>
  Step 2: the running containers, those of the legacy prefix appended when the configured
  prefix differs; the error of the second listing is ignored.
\<close>

definition listContainers :: "recon \<Rightarrow> error + Info list" where
  "listContainers e =
     (case GetRunningContainers (world e) (configPrefix e) of
        Inl err \<Rightarrow> Inl err
      | Inr containers \<Rightarrow>
          if configPrefix e \<noteq> ''mcl-''
          then Inr (containers @ (case GetRunningContainers (legacyWorld e) ''mcl-'' of
                                    Inl err \<Rightarrow> []
                                  | Inr legacyContainers \<Rightarrow> legacyContainers))
          else Inr containers)"

fun scanLoop :: "recon \<Rightarrow> tokenSource list \<Rightarrow> Info list \<Rightarrow> tokenSource list" where
  "scanLoop e sources [] = sources"
| "scanLoop e sources (c # rest) =
     (if \<not> extractOk e (Name c) then scanLoop e sources rest
      else case tmpCreds e (Name c) of
        Some cr \<Rightarrow>
          scanLoop e (sources @ [\<lparr>location = Name c, path = tmpFileOf e (Name c),
                                   creds = Some cr,
                                   expiresAt = UnixMilli (ExpiresAt (ClaudeAiOauth cr))\<rparr>]) rest
      | None \<Rightarrow> scanLoop e sources rest)"

definition scanSources :: "recon \<Rightarrow> Info list \<Rightarrow> tokenSource list" where
  "scanSources e containers = scanLoop e (hostSource e) containers"

text \<open>Step 3: the loop that keeps the freshest source, started from the zero value.\<close>

fun freshestLoop :: "tokenSource \<Rightarrow> tokenSource list \<Rightarrow> tokenSource" where
  "freshestLoop freshest [] = freshest"
| "freshestLoop freshest (src # rest) =
     freshestLoop (if After (expiresAt src) (expiresAt freshest) then src else freshest) rest"

definition selectFreshest :: "tokenSource list \<Rightarrow> tokenSource" where
  "selectFreshest sources = freshestLoop zeroSource sources"

text \<open>
  Step 6: the host first, unless it is the source, then every container but the source.
  A container counts as synced once the copy succeeded, whether or not the change of
  owner did.
\<close>

definition syncHost :: "recon \<Rightarrow> tokenSource \<Rightarrow> nat \<times> action list" where
  "syncHost e freshest =
     (if location freshest \<noteq> ''host''
      then (if hostWriteOk e (path freshest) then (1, [WriteHost (path freshest)])
            else (0, [WriteHost (path freshest)]))
      else (0, []))"

fun syncLoop :: "recon \<Rightarrow> tokenSource \<Rightarrow> nat \<times> action list \<Rightarrow> Info list \<Rightarrow> nat \<times> action list" where
  "syncLoop e freshest acc [] = acc"
| "syncLoop e freshest acc (c # rest) =
     (if Name c = location freshest then syncLoop e freshest acc rest
      else let tmpFile = (if location freshest = ''host'' then hostCredPath e
                          else path freshest)
           in if \<not> injectOk e tmpFile (Name c)
              then syncLoop e freshest (fst acc, snd acc @ [CopyIn tmpFile (Name c)]) rest
              else syncLoop e freshest
                     (Suc (fst acc), snd acc @ [CopyIn tmpFile (Name c), Chown (Name c)]) rest)"

definition propagate :: "recon \<Rightarrow> tokenSource \<Rightarrow> Info list \<Rightarrow> nat \<times> action list" where
  "propagate e freshest containers = syncLoop e freshest (syncHost e freshest) containers"

text \<open>
  The whole pass. \<^verbatim>\<open>IsTokenExpired(freshest.creds)\<close> dereferences the pointer: on a
  nil pointer the program panics, which is the result \<open>NilDereference\<close>.
\<close>

definition runRefreshTokens :: "recon \<Rightarrow> outcome" where
  "runRefreshTokens e =
     (case listContainers e of
        Inl err \<Rightarrow> \<lparr>result = Inl err, writes = []\<rparr>
      | Inr containers \<Rightarrow>
          let sources = scanSources e containers in
          if length sources = 0 then \<lparr>result = Inl NoCredentialsFound, writes = []\<rparr>
          else let freshest = selectFreshest sources in
            case creds freshest of
              None \<Rightarrow> \<lparr>result = Inl NilDereference, writes = []\<rparr>
            | Some fc \<Rightarrow>
                if IsTokenExpired fc (clockMs e)
                then \<lparr>result = Inl AllCredentialsExpired, writes = []\<rparr>
                else let synced = propagate e freshest containers
                     in \<lparr>result = Inr (fst synced), writes = snd synced\<rparr>)"

text \<open>
  The pass reaches the last step when the listing succeeded, a replica was read, and the
  selected replica exists and is not expired.
\<close>

definition reachesPropagate :: "recon \<Rightarrow> Info list \<Rightarrow> tokenSource \<Rightarrow> bool" where
  "reachesPropagate e containers freshest =
     (listContainers e = Inr containers
      \<and> scanSources e containers \<noteq> []
      \<and> freshest = selectFreshest (scanSources e containers)
      \<and> (case creds freshest of
            None \<Rightarrow> False
          | Some fc \<Rightarrow> \<not> IsTokenExpired fc (clockMs e)))"

text \<open>The targets of the last step, the writes among them that succeed, and the file copied.\<close>

definition syncFile :: "recon \<Rightarrow> tokenSource \<Rightarrow> string" where
  "syncFile e freshest = (if location freshest = ''host'' then hostCredPath e else path freshest)"

definition containerTargets :: "tokenSource \<Rightarrow> Info list \<Rightarrow> string list" where
  "containerTargets freshest containers =
     filter (\<lambda>n. n \<noteq> location freshest) (map Name containers)"

definition attempted :: "recon \<Rightarrow> tokenSource \<Rightarrow> Info list \<Rightarrow> nat" where
  "attempted e freshest containers =
     (if location freshest \<noteq> ''host'' then 1 else 0)
     + length (containerTargets freshest containers)"

definition succeeded :: "recon \<Rightarrow> tokenSource \<Rightarrow> Info list \<Rightarrow> nat" where
  "succeeded e freshest containers =
     (if location freshest \<noteq> ''host'' \<and> hostWriteOk e (path freshest) then 1 else 0)
     + length (filter (injectOk e (syncFile e freshest)) (containerTargets freshest containers))"

definition isCopyIn :: "action \<Rightarrow> bool" where
  "isCopyIn a = (case a of CopyIn src c \<Rightarrow> True | _ \<Rightarrow> False)"

text \<open>
  Example worlds: the listing shows one running container mcl-a; the host replica expires
  at \<open>hostExpiry\<close>, the clock reads 1000, the replica of the container cannot be
  extracted, and every write fails or succeeds as \<open>ok\<close> says.
\<close>

definition oneContainer :: string where
  "oneContainer = listingOf [(''mcl-a'', ''Up 2 hours'', ''running'', ''today'')]"

definition hostOnly :: "int \<Rightarrow> bool \<Rightarrow> recon" where
  "hostOnly hostExpiry ok =
     \<lparr>hostCredPath = ''/auth/.credentials.json'',
      tmpFileOf = (\<lambda>n. ''/tmp/maestro-creds-'' @ n @ ''.json''),
      configPrefix = ''mcl-'',
      hostCreds = Some (mkCreds hostExpiry),
      world = deadWorld oneContainer, legacyWorld = deadWorld oneContainer,
      extractOk = (\<lambda>_. False), tmpCreds = (\<lambda>_. None), clockMs = 1000,
      hostWriteOk = (\<lambda>_. ok), injectOk = (\<lambda>_ _. ok), chownOk = (\<lambda>_. ok)\<rparr>"

text \<open>
  \<open>rowA\<close> is the row of the container of \<open>oneContainer\<close>, \<open>hostSrc\<close> the source
  that \<open>hostOnly\<close> reads from the host, \<open>noHost\<close> the same world without a host
  replica. A container is \<open>readable\<close> when its replica can be extracted and read.
\<close>

definition rowA :: Info where
  "rowA = runningRow (deadWorld oneContainer) ''mcl-''
            \<lparr>name = ''mcl-a'', status = ''Up 2 hours'', state = ''running'', createdAt = zeroTime\<rparr>"

definition hostSrc :: "int \<Rightarrow> tokenSource" where
  "hostSrc x = \<lparr>location = ''host'', path = ''/auth/.credentials.json'',
                creds = Some (mkCreds x), expiresAt = x\<rparr>"





section \<open>The domain whitelist propagator (cmd/add-domain.go, AddDomainToContainer)\<close>

text \<open>
  The sandbox as the two functions see it through \<^verbatim>\<open>docker exec\<close>: the content of the
  resolver configuration \<^verbatim>\<open>/tmp/dnsmasq-firewall.conf\<close> (\<open>None\<close> when there is no such
  file), the number of times the resolver was restarted, what the status query prints
  (\<open>None\<close> when it fails), and whether the append and the restart commands succeed.
\<close>

record sandbox =
  confFile :: "string option"
  restarts :: nat
  containerState :: "string option"
  appendOk :: bool
  restartOk :: bool

text \<open>
  The domain is pasted into a regular expression for \<^verbatim>\<open>grep -q\<close> and into a shell
  command inside single quotes. For a domain name, made of letters, digits, hyphens,
  underscores and dots, the only character with a meaning of its own in either is the
  dot, which in the regular expression stands for any character. \<open>grepQ\<close> is
  \<^verbatim>\<open>grep -q\<close> for such an expression: some line of the file holds a match; without a
  file grep fails, which the callers take as no match.
\<close>

definition domainChar :: "char \<Rightarrow> bool" where
  "domainChar c =
     (c \<in> set ''abcdefghijklmnopqrstuvwxyzABCDEFGHIJKLMNOPQRSTUVWXYZ0123456789-_.'')"

definition domainName :: "string \<Rightarrow> bool" where
  "domainName d = list_all domainChar d"

definition reChar :: "char \<Rightarrow> char \<Rightarrow> bool" where
  "reChar p c = (p = CHR ''.'' \<or> p = c)"

fun matchHere :: "string \<Rightarrow> string \<Rightarrow> bool" where
  "matchHere [] t = True"
| "matchHere (p # ps) [] = False"
| "matchHere (p # ps) (c # cs) = (reChar p c \<and> matchHere ps cs)"

fun matchAnywhere :: "string \<Rightarrow> string \<Rightarrow> bool" where
  "matchAnywhere pat [] = matchHere pat []"
| "matchAnywhere pat (c # cs) = (matchHere pat (c # cs) \<or> matchAnywhere pat cs)"

definition grepQ :: "string \<Rightarrow> string option \<Rightarrow> bool" where
  "grepQ pat file =
     (case file of
        None \<Rightarrow> False
      | Some content \<Rightarrow> list_ex (matchAnywhere pat) (Split nl content))"

definition rulePattern :: "string \<Rightarrow> string" where
  "rulePattern domain = ''ipset=/'' @ domain @ ''/''"

text \<open>What the two \<^verbatim>\<open>echo ... >> file\<close> of the append command add to the file.\<close>

definition ruleLines :: "string \<Rightarrow> string" where
  "ruleLines domain =
     ''ipset=/'' @ domain @ ''/allowed-domains'' @ [nl]
     @ ''server=/'' @ domain @ ''/8.8.8.8'' @ [nl]"

definition appendRule :: "string \<Rightarrow> sandbox \<Rightarrow> sandbox" where
  "appendRule domain sb =
     sb\<lparr>confFile := Some ((case confFile sb of None \<Rightarrow> [] | Some content \<Rightarrow> content)
                          @ ruleLines domain)\<rparr>"

definition restartResolver :: "sandbox \<Rightarrow> (error + unit) \<times> sandbox" where
  "restartResolver sb =
     (if \<not> restartOk sb then (Inl RestartFailed, sb)
      else (Inr (), sb\<lparr>restarts := Suc (restarts sb)\<rparr>))"

text \<open>
  \<^verbatim>\<open>AddDomainToContainer\<close>: nothing more is done when the rule is found; the probe
  resolution at the end changes nothing and its error is ignored.
\<close>

definition AddDomainToContainer :: "sandbox \<Rightarrow> string \<Rightarrow> (error + unit) \<times> sandbox" where
  "AddDomainToContainer sb domain =
     (if grepQ (rulePattern domain) (confFile sb) then (Inr (), sb)
      else if \<not> appendOk sb then (Inl AppendFailed, sb)
      else restartResolver (appendRule domain sb))"

text \<open>
  \<^verbatim>\<open>runAddDomain\<close>, from the resolved container name on: the container must be running,
  the rule is appended unless found, and the resolver is restarted in both cases. The
  offer to store the domain in the local configuration file does not touch the sandbox
  and is left out.
\<close>

definition runAddDomain :: "sandbox \<Rightarrow> string \<Rightarrow> (error + unit) \<times> sandbox" where
  "runAddDomain sb domain =
     (case containerState sb of
        None \<Rightarrow> (Inl StatusCheckFailed, sb)
      | Some output \<Rightarrow>
          if TrimSpace output \<noteq> ''running'' then (Inl NotRunning, sb)
          else if grepQ (rulePattern domain) (confFile sb) then restartResolver sb
          else if \<not> appendOk sb then (Inl AppendFailed, sb)
          else restartResolver (appendRule domain sb))"

text \<open>A sandbox with a configuration file of one rule, where every command succeeds.\<close>

definition freshSandbox :: sandbox where
  "freshSandbox =
     \<lparr>confFile = Some (ruleLines ''github.com''), restarts = 0,
      containerState = Some (''running'' @ [nl]), appendOk = True, restartOk = True\<rparr>"

section \<open>Properties\<close>

lemma HasPrefix_iff_prefix: "HasPrefix s p \<longleftrightarrow> prefix p s"
proof
  assume "HasPrefix s p"
  then have "take (length p) s = p" by (simp add: HasPrefix_def)
  then have "s = p @ drop (length p) s" by (metis append_take_drop_id)
  then show "prefix p s" by (metis prefixI)
next
  assume "prefix p s"
  then obtain r where "s = p @ r" by (auto simp: prefix_def)
  then show "HasPrefix s p" by (simp add: HasPrefix_def)
qed

text \<open>
  C1 (as amended). The expiry predicate is strict: a credential is classified as expired
  exactly when its expiry lies strictly before the clock reading; a credential whose
  expiry equals the clock reading is classified as not expired.
\<close>

theorem IsTokenExpired_strict:
  "IsTokenExpired c now = (ExpiresAt (ClaudeAiOauth c) < now)
   \<and> \<not> IsTokenExpired (mkCreds now) now"
  by (simp add: IsTokenExpired_def mkCreds_def)

text \<open>
  C1 (as stated) fails at the boundary: with expiry 1000 and clock reading 1000 the
  expiry is \<open>\<le>\<close> the clock, yet the credential is not classified as expired.
\<close>

theorem IsTokenExpired_boundary_counterexample:
  "\<not> (IsTokenExpired (mkCreds 1000) 1000 = (ExpiresAt (ClaudeAiOauth (mkCreds 1000)) \<le> 1000))"
  by (simp add: IsTokenExpired_def mkCreds_def)

text \<open>
  C8. If the name starts with the prefix, the short name is the name with exactly one
  leading occurrence of the prefix removed (whatever follows, even a second occurrence,
  is kept); otherwise the short name is the name itself. The short name is a function of
  the name and the prefix alone.
\<close>

theorem GetShortName_strips_one_prefix:
  "(\<forall>r. N = P @ r \<longrightarrow> GetShortName N P = r)
   \<and> (\<not> prefix P N \<longrightarrow> GetShortName N P = N)"
  by (auto simp: GetShortName_def HasPrefix_iff_prefix)

theorem GetShortName_strips_one_prefix_witness:
  "GetShortName ''mcl-mcl-foo'' ''mcl-'' = ''mcl-foo''
   \<and> \<not> prefix ''mcl-'' ''other-bar''
   \<and> GetShortName ''other-bar'' ''mcl-'' = ''other-bar''"
proof -
  have a: "''mcl-mcl-foo'' = ''mcl-'' @ ''mcl-foo''" by simp
  have b: "\<not> prefix ''mcl-'' ''other-bar''" by simp
  from GetShortName_strips_one_prefix [of "''mcl-mcl-foo''" "''mcl-''"] a
  have c: "GetShortName ''mcl-mcl-foo'' ''mcl-'' = ''mcl-foo''" by blast
  from GetShortName_strips_one_prefix [of "''other-bar''" "''mcl-''"] b
  have d: "GetShortName ''other-bar'' ''mcl-'' = ''other-bar''" by blast
  from b c d show ?thesis by blast
qed

section \<open>The registry query\<close>

lemma Split_nonempty: "Split c s \<noteq> []"
  by (induction s) (auto split: list.splits)

lemma Split_no_sep: "c \<notin> set w \<Longrightarrow> Split c w = [w]"
  by (induction w) auto

lemma Split_sep: "c \<notin> set w \<Longrightarrow> Split c (w @ c # v) = w # Split c v"
  by (induction w) auto

lemma parseLoop_map_filter:
  "parseLoop tp P acc ls = acc @ List.map_filter (parseRow tp P) ls"
  by (induction ls arbitrary: acc) (auto simp: List.map_filter_simps split: option.splits)

lemma Split_rowLine: "wellFormedRow (n, st, s, c) \<Longrightarrow> Split tab (rowLine (n, st, s, c)) = [n, st, s, c]"
  by (simp add: wellFormedRow_def plainField_def rowLine_def Split_sep Split_no_sep)

lemma rowLine_no_nl: "wellFormedRow r \<Longrightarrow> nl \<notin> set (rowLine r)"
  by (auto simp: wellFormedRow_def plainField_def rowLine_def nl_def tab_def split: prod.splits)

lemma parseRow_rowLine:
  "wellFormedRow r \<Longrightarrow> parseRow tp P (rowLine r) = (if HasPrefix (fst r) P then Some (basicOf tp r) else None)"
  by (cases r) (auto simp: parseRow_def Split_rowLine basicOf_def Let_def, auto simp: rowLine_def)

lemma Split_listingOf:
  "\<forall>r \<in> set rows. wellFormedRow r \<Longrightarrow> Split nl (listingOf rows) = map rowLine rows @ [[]]"
  by (induction rows) (auto simp: listingOf_def Split_sep rowLine_no_nl)

lemma parseRow_empty: "parseRow tp P [] = None"
  by (simp add: parseRow_def)

lemma map_filter_rows:
  "\<forall>r \<in> set rows. wellFormedRow r \<Longrightarrow>
   List.map_filter (parseRow tp P) (map rowLine rows) = map (basicOf tp) (filter (\<lambda>r. HasPrefix (fst r) P) rows)"
  by (induction rows) (auto simp: List.map_filter_simps parseRow_rowLine)

lemma map_filter_app: "List.map_filter f (xs @ ys) = List.map_filter f xs @ List.map_filter f ys"
  by (simp add: List.map_filter_def)

lemma parseBasics_listingOf:
  "\<forall>r \<in> set rows. wellFormedRow r \<Longrightarrow>
   parseBasics tp P (listingOf rows) = map (basicOf tp) (filter (\<lambda>r. HasPrefix (fst r) P) rows)"
  by (simp add: parseBasics_def Split_listingOf parseLoop_map_filter map_filter_rows List.map_filter_simps parseRow_empty map_filter_app)

lemma GetRunningContainers_listingOf:
  assumes "\<forall>r \<in> set rows. wellFormedRow r" and "psListing w = Some (listingOf rows)"
  shows "GetRunningContainers w P =
         Inr (map (runningRow w P) (map (basicOf (timeParse w)) (filter (\<lambda>r. HasPrefix (fst r) P) rows)))"
  using assms by (simp add: GetRunningContainers_def parseBasics_listingOf)

lemma GetAllContainers_listingOf:
  assumes "\<forall>r \<in> set rows. wellFormedRow r" and "psAllListing w = Some (listingOf rows)"
  shows "GetAllContainers w P =
         Inr (map (allRow w P) (map (basicOf (timeParse w)) (filter (\<lambda>r. HasPrefix (fst r) P) rows)))"
  using assms by (simp add: GetAllContainers_def parseBasics_listingOf)

lemma Name_runningRow: "Name (runningRow w P b) = name b"
  by (simp add: runningRow_def)

lemma Name_allRow: "Name (allRow w P b) = name b"
  by (simp add: allRow_def Let_def)




lemma scenarioC_wellFormed: "\<forall>r \<in> set scenarioC. wellFormedRow r"
  by (simp add: scenarioC_def wellFormedRow_def plainField_def tab_def nl_def)


lemma in_set_mapI: "x \<in> set xs \<Longrightarrow> f x \<in> set (map f xs)"
  by simp

lemma in_set_kept_row:
  assumes "(n, st, s, c) \<in> set rows" and "HasPrefix n P" and "tp c = None"
  shows "\<lparr>name = n, status = st, state = s, createdAt = zeroTime\<rparr>
         \<in> set (map (basicOf tp) (filter (\<lambda>r. HasPrefix (fst r) P) rows))"
proof -
  have m: "(n, st, s, c) \<in> set (filter (\<lambda>r. HasPrefix (fst r) P) rows)"
    using assms(1,2) by simp
  have beq: "basicOf tp (n, st, s, c) = \<lparr>name = n, status = st, state = s, createdAt = zeroTime\<rparr>"
    using assms(3) by (simp add: basicOf_def)
  have "basicOf tp (n, st, s, c) \<in> set (map (basicOf tp) (filter (\<lambda>r. HasPrefix (fst r) P) rows))"
    using m by (rule in_set_mapI)
  then show ?thesis unfolding beq .
qed

text \<open>
  C7. A row of the listing whose name starts with the prefix and whose creation time is
  refused by \<^verbatim>\<open>time.Parse\<close> is in the result of both registry queries, with its
  name, status and state and with the zero value of \<^verbatim>\<open>time.Time\<close> as creation time;
  the queries return no error and drop no row that starts with the prefix.
\<close>

theorem unparsable_timestamp_row_is_kept:
  assumes "\<forall>r \<in> set rows. wellFormedRow r"
    and "(n, st, s, c) \<in> set rows" and "HasPrefix n P" and "timeParse w c = None"
    and "psListing w = Some (listingOf rows)" and "psAllListing w = Some (listingOf rows)"
  shows "\<exists>running everything.
           GetRunningContainers w P = Inr running
         \<and> GetAllContainers w P = Inr everything
         \<and> length running = length (filter (\<lambda>r. HasPrefix (fst r) P) rows)
         \<and> length everything = length (filter (\<lambda>r. HasPrefix (fst r) P) rows)
         \<and> (\<exists>i \<in> set running. Name i = n \<and> StatusDetails i = st \<and> Status i = s \<and> CreatedAt i = zeroTime)
         \<and> (\<exists>i \<in> set everything. Name i = n \<and> StatusDetails i = st \<and> Status i = s \<and> CreatedAt i = zeroTime)"
proof -
  let ?b = "\<lparr>name = n, status = st, state = s, createdAt = zeroTime\<rparr>"
  let ?bs = "map (basicOf (timeParse w)) (filter (\<lambda>r. HasPrefix (fst r) P) rows)"
  have mem: "?b \<in> set ?bs" using assms(2,3,4) by (rule in_set_kept_row)
  have r: "GetRunningContainers w P = Inr (map (runningRow w P) ?bs)"
    using assms(1,5) by (rule GetRunningContainers_listingOf)
  have a: "GetAllContainers w P = Inr (map (allRow w P) ?bs)"
    using assms(1,6) by (rule GetAllContainers_listingOf)
  have ir: "runningRow w P ?b \<in> set (map (runningRow w P) ?bs)" using mem by (rule in_set_mapI)
  have ia: "allRow w P ?b \<in> set (map (allRow w P) ?bs)" using mem by (rule in_set_mapI)
  have fr: "Name (runningRow w P ?b) = n \<and> StatusDetails (runningRow w P ?b) = st
            \<and> Status (runningRow w P ?b) = s \<and> CreatedAt (runningRow w P ?b) = zeroTime"
    by (simp add: runningRow_def)
  have fa: "Name (allRow w P ?b) = n \<and> StatusDetails (allRow w P ?b) = st
            \<and> Status (allRow w P ?b) = s \<and> CreatedAt (allRow w P ?b) = zeroTime"
    by (simp add: allRow_def Let_def)
  have er: "\<exists>i \<in> set (map (runningRow w P) ?bs).
              Name i = n \<and> StatusDetails i = st \<and> Status i = s \<and> CreatedAt i = zeroTime"
    using ir fr by (rule bexI [rotated])
  have ea: "\<exists>i \<in> set (map (allRow w P) ?bs).
              Name i = n \<and> StatusDetails i = st \<and> Status i = s \<and> CreatedAt i = zeroTime"
    using ia fa by (rule bexI [rotated])
  show ?thesis
    unfolding r a using er ea by simp
qed

theorem unparsable_timestamp_row_is_kept_witness:
  "wellFormedRow (scenarioC ! 0) \<and> wellFormedRow (scenarioC ! 1) \<and> wellFormedRow (scenarioC ! 2)
   \<and> length scenarioC = 3
   \<and> scenarioC ! 2 = (''mcl-baz'', ''Exited (0) 1 hour ago'', ''exited'', ''yesterday'')
   \<and> HasPrefix ''mcl-baz'' ''mcl-''
   \<and> timeParse (deadWorld (listingOf scenarioC)) ''yesterday'' = None
   \<and> psListing (deadWorld (listingOf scenarioC)) = Some (listingOf scenarioC)
   \<and> psAllListing (deadWorld (listingOf scenarioC)) = Some (listingOf scenarioC)
   \<and> (\<exists>running everything.
         GetRunningContainers (deadWorld (listingOf scenarioC)) ''mcl-'' = Inr running
       \<and> GetAllContainers (deadWorld (listingOf scenarioC)) ''mcl-'' = Inr everything
       \<and> length running = 2 \<and> length everything = 2
       \<and> (\<exists>i \<in> set running. Name i = ''mcl-baz'' \<and> CreatedAt i = zeroTime)
       \<and> (\<exists>i \<in> set everything. Name i = ''mcl-baz'' \<and> CreatedAt i = zeroTime))"
proof -
  have wf: "\<forall>r \<in> set scenarioC. wellFormedRow r" by (rule scenarioC_wellFormed)
  have m: "(''mcl-baz'', ''Exited (0) 1 hour ago'', ''exited'', ''yesterday'') \<in> set scenarioC"
    by (simp add: scenarioC_def)
  have h: "HasPrefix ''mcl-baz'' ''mcl-''" by (simp add: HasPrefix_def)
  have t: "timeParse (deadWorld (listingOf scenarioC)) ''yesterday'' = None" by (simp add: deadWorld_def)
  have p1: "psListing (deadWorld (listingOf scenarioC)) = Some (listingOf scenarioC)"
    by (simp add: deadWorld_def)
  have p2: "psAllListing (deadWorld (listingOf scenarioC)) = Some (listingOf scenarioC)"
    by (simp add: deadWorld_def)
  have len: "length (filter (\<lambda>r. HasPrefix (fst r) ''mcl-'') scenarioC) = 2"
    by (simp add: scenarioC_def HasPrefix_def)
  have w0: "wellFormedRow (scenarioC ! 0) \<and> wellFormedRow (scenarioC ! 1) \<and> wellFormedRow (scenarioC ! 2)
     \<and> length scenarioC = 3 \<and> scenarioC ! 2 = (''mcl-baz'', ''Exited (0) 1 hour ago'', ''exited'', ''yesterday'')"
    by (simp add: scenarioC_def wellFormedRow_def plainField_def tab_def nl_def)
  from unparsable_timestamp_row_is_kept [OF wf m h t p1 p2] len
  have ex: "\<exists>running everything.
         GetRunningContainers (deadWorld (listingOf scenarioC)) ''mcl-'' = Inr running
       \<and> GetAllContainers (deadWorld (listingOf scenarioC)) ''mcl-'' = Inr everything
       \<and> length running = 2 \<and> length everything = 2
       \<and> (\<exists>i \<in> set running. Name i = ''mcl-baz'' \<and> CreatedAt i = zeroTime)
       \<and> (\<exists>i \<in> set everything. Name i = ''mcl-baz'' \<and> CreatedAt i = zeroTime)"
    by auto
  from w0 h t p1 p2 ex show ?thesis by blast
qed

lemma parseRow_not_fullRow: "\<not> fullRow line \<Longrightarrow> parseRow tp P line = None"
  by (auto simp: fullRow_def parseRow_def Let_def)

lemma map_filter_fullRow:
  "List.map_filter (parseRow tp P) (filter fullRow ls) = List.map_filter (parseRow tp P) ls"
  by (induction ls) (auto simp: List.map_filter_simps parseRow_not_fullRow split: option.splits)

lemma parseLoop_fullRow:
  "parseLoop tp P [] (filter fullRow ls) = parseLoop tp P [] ls"
  by (simp add: parseLoop_map_filter map_filter_fullRow)

lemma length_map_filter_le: "length (List.map_filter f xs) \<le> length xs"
  by (induction xs) (auto simp: List.map_filter_simps split: option.splits)

text \<open>
  C10. An empty line and a line with fewer than four tab-separated fields give no record
  and no error: for every output of the listing command, both registry queries succeed
  and return what they return on the lines that are not empty and have at least four
  fields.
\<close>

theorem short_and_empty_lines_are_discarded:
  "(\<not> fullRow line \<longrightarrow> parseRow tp P line = None)
   \<and> (psListing w = Some output \<longrightarrow>
        (\<exists>running. GetRunningContainers w P = Inr running
           \<and> running = map (runningRow w P) (parseLoop (timeParse w) P [] (filter fullRow (Split nl output)))
           \<and> length running \<le> length (filter fullRow (Split nl output))))
   \<and> (psAllListing w = Some output \<longrightarrow>
        (\<exists>everything. GetAllContainers w P = Inr everything
           \<and> everything = map (allRow w P) (parseLoop (timeParse w) P [] (filter fullRow (Split nl output)))
           \<and> length everything \<le> length (filter fullRow (Split nl output))))"
proof -
  have l: "length (parseLoop (timeParse w) P [] (filter fullRow (Split nl output)))
           \<le> length (filter fullRow (Split nl output))"
    by (simp add: parseLoop_map_filter length_map_filter_le)
  have a: "\<not> fullRow line \<longrightarrow> parseRow tp P line = None"
    by (simp add: parseRow_not_fullRow)
  have b: "psListing w = Some output \<longrightarrow>
        (\<exists>running. GetRunningContainers w P = Inr running
           \<and> running = map (runningRow w P) (parseLoop (timeParse w) P [] (filter fullRow (Split nl output)))
           \<and> length running \<le> length (filter fullRow (Split nl output)))"
    using l by (simp add: GetRunningContainers_def parseBasics_def parseLoop_fullRow)
  have c: "psAllListing w = Some output \<longrightarrow>
        (\<exists>everything. GetAllContainers w P = Inr everything
           \<and> everything = map (allRow w P) (parseLoop (timeParse w) P [] (filter fullRow (Split nl output)))
           \<and> length everything \<le> length (filter fullRow (Split nl output)))"
    using l by (simp add: GetAllContainers_def parseBasics_def parseLoop_fullRow)
  from a b c show ?thesis by blast
qed

lemma raggedListing_full:
  "filter fullRow (Split nl raggedListing) = [''mcl-ok'' @ [tab] @ ''Up 2 hours'' @ [tab] @ ''running'' @ [tab] @ ''now'']"
  unfolding raggedListing_def fullRow_def nl_def tab_def by code_simp

theorem short_and_empty_lines_are_discarded_witness:
  "\<not> fullRow [] \<and> \<not> fullRow (''mcl-short'' @ [tab] @ ''Up 1 hour'')
   \<and> parseRow (\<lambda>_. None) ''mcl-'' [] = None
   \<and> parseRow (\<lambda>_. None) ''mcl-'' (''mcl-short'' @ [tab] @ ''Up 1 hour'') = None
   \<and> psListing (deadWorld raggedListing) = Some raggedListing
   \<and> psAllListing (deadWorld raggedListing) = Some raggedListing
   \<and> (\<exists>running. GetRunningContainers (deadWorld raggedListing) ''mcl-'' = Inr running
         \<and> map Name running = [''mcl-ok''])
   \<and> (\<exists>everything. GetAllContainers (deadWorld raggedListing) ''mcl-'' = Inr everything
         \<and> map Name everything = [''mcl-ok''])"
proof -
  have f1: "\<not> fullRow []" by (simp add: fullRow_def)
  have f2: "\<not> fullRow (''mcl-short'' @ [tab] @ ''Up 1 hour'')" unfolding fullRow_def tab_def by code_simp
  have p1: "psListing (deadWorld raggedListing) = Some raggedListing" by (simp add: deadWorld_def)
  have p2: "psAllListing (deadWorld raggedListing) = Some raggedListing" by (simp add: deadWorld_def)
  have pr: "parseLoop (timeParse (deadWorld raggedListing)) ''mcl-'' [] (filter fullRow (Split nl raggedListing))
            = [\<lparr>name = ''mcl-ok'', status = ''Up 2 hours'', state = ''running'', createdAt = zeroTime\<rparr>]"
  proof -
    have "parseRow (\<lambda>_. None) ''mcl-'' (''mcl-ok'' @ [tab] @ ''Up 2 hours'' @ [tab] @ ''running'' @ [tab] @ ''now'')
          = Some \<lparr>name = ''mcl-ok'', status = ''Up 2 hours'', state = ''running'', createdAt = zeroTime\<rparr>"
      unfolding parseRow_def HasPrefix_def tab_def by code_simp
    then show ?thesis by (simp add: raggedListing_full deadWorld_def)
  qed
  note T1 = short_and_empty_lines_are_discarded [of "[]" "\<lambda>_. None" "''mcl-''" "deadWorld raggedListing" raggedListing]
  note T2 = short_and_empty_lines_are_discarded [of "''mcl-short'' @ [tab] @ ''Up 1 hour''" "\<lambda>_. None" "''mcl-''" "deadWorld raggedListing" raggedListing]
  have a1: "parseRow (\<lambda>_. None) ''mcl-'' [] = None" using T1 f1 by blast
  have a2: "parseRow (\<lambda>_. None) ''mcl-'' (''mcl-short'' @ [tab] @ ''Up 1 hour'') = None" using T2 f2 by blast
  have r: "\<exists>running. GetRunningContainers (deadWorld raggedListing) ''mcl-'' = Inr running
         \<and> map Name running = [''mcl-ok'']"
    using T1 p1 pr by (auto simp: Name_runningRow)
  have e: "\<exists>everything. GetAllContainers (deadWorld raggedListing) ''mcl-'' = Inr everything
         \<and> map Name everything = [''mcl-ok'']"
    using T1 p2 pr by (auto simp: Name_allRow)
  from f1 f2 a1 a2 p1 p2 r e show ?thesis by blast
qed

section \<open>The reconciler\<close>

lemma syncLoop_count:
  "fst (syncLoop e f acc cs)
   = fst acc + length (filter (injectOk e (syncFile e f)) (containerTargets f cs))"
  by (induction cs arbitrary: acc) (auto simp: containerTargets_def syncFile_def Let_def)

lemma syncLoop_copies:
  "filter isCopyIn (snd (syncLoop e f acc cs))
   = filter isCopyIn (snd acc) @ map (CopyIn (syncFile e f)) (containerTargets f cs)"
  by (induction cs arbitrary: acc) (auto simp: containerTargets_def syncFile_def Let_def isCopyIn_def)

lemma propagate_count: "fst (propagate e f cs) = succeeded e f cs"
  by (auto simp: propagate_def syncLoop_count succeeded_def syncHost_def)

lemma propagate_copies:
  "filter isCopyIn (snd (propagate e f cs)) = map (CopyIn (syncFile e f)) (containerTargets f cs)"
  by (auto simp: propagate_def syncLoop_copies syncHost_def isCopyIn_def)

lemma succeeded_le_attempted: "succeeded e f cs \<le> attempted e f cs"
  by (auto simp: succeeded_def attempted_def intro: le_trans [OF length_filter_le])

lemma run_reaches:
  assumes "reachesPropagate e cs f"
  shows "runRefreshTokens e = \<lparr>result = Inr (fst (propagate e f cs)), writes = snd (propagate e f cs)\<rparr>"
  using assms
  by (auto simp: reachesPropagate_def runRefreshTokens_def Let_def split: option.splits)

text \<open>
  C2 (as amended). Every pass that reaches the last step reports success, whatever the
  number of successful target writes: the result is the tally of the writes that
  succeeded, at most the number attempted, and every container other than the source is
  attempted, a failed write only leaving the tally as it is.
\<close>

theorem propagate_stage_always_succeeds:
  assumes "reachesPropagate e cs f"
  shows "result (runRefreshTokens e) = Inr (succeeded e f cs)
         \<and> succeeded e f cs \<le> attempted e f cs
         \<and> filter isCopyIn (writes (runRefreshTokens e))
             = map (CopyIn (syncFile e f)) (containerTargets f cs)"
  using assms by (simp add: run_reaches propagate_count propagate_copies succeeded_le_attempted)

lemma oneContainer_running:
  "GetRunningContainers (deadWorld oneContainer) ''mcl-''
   = Inr [runningRow (deadWorld oneContainer) ''mcl-''
            \<lparr>name = ''mcl-a'', status = ''Up 2 hours'', state = ''running'', createdAt = zeroTime\<rparr>]"
proof -
  have wf: "\<forall>r \<in> set [(''mcl-a'', ''Up 2 hours'', ''running'', ''today'')]. wellFormedRow r"
    by (simp add: wellFormedRow_def plainField_def tab_def nl_def)
  have ps: "psListing (deadWorld oneContainer) = Some (listingOf [(''mcl-a'', ''Up 2 hours'', ''running'', ''today'')])"
    by (simp add: deadWorld_def oneContainer_def)
  have tp: "timeParse (deadWorld oneContainer) = (\<lambda>_. None)"
    by (simp add: deadWorld_def)
  show ?thesis
    by (simp add: GetRunningContainers_listingOf [OF wf ps] HasPrefix_def basicOf_def tp)
qed

lemma hostOnly_list:
  "listContainers (hostOnly x ok)
   = Inr [runningRow (deadWorld oneContainer) ''mcl-''
            \<lparr>name = ''mcl-a'', status = ''Up 2 hours'', state = ''running'', createdAt = zeroTime\<rparr>]"
  by (simp add: listContainers_def hostOnly_def oneContainer_running)

lemma hostOnly_scan:
  "scanSources (hostOnly x ok) [runningRow w P b]
   = [\<lparr>location = ''host'', path = ''/auth/.credentials.json'', creds = Some (mkCreds x), expiresAt = x\<rparr>]"
  by (simp add: scanSources_def hostSource_def hostOnly_def UnixMilli_def mkCreds_def)

text \<open>
  C2 (as stated) fails: with a valid host replica and one container whose write fails,
  the pass attempts one write, none succeeds, and the pass still reports success with a
  tally of zero.
\<close>

theorem propagate_zero_of_one_counterexample:
  "result (runRefreshTokens (hostOnly 2000 False)) = Inr 0
   \<and> writes (runRefreshTokens (hostOnly 2000 False)) = [CopyIn ''/auth/.credentials.json'' ''mcl-a'']"
  by (simp add: runRefreshTokens_def hostOnly_list hostOnly_scan selectFreshest_def zeroSource_def
      After_def zeroTime_def IsTokenExpired_def mkCreds_def propagate_def syncHost_def Let_def
      Name_runningRow)
     (simp add: hostOnly_def)

lemma hostOnly_reaches:
  "1000 \<le> x \<Longrightarrow> reachesPropagate (hostOnly x ok) [rowA] (hostSrc x)"
  by (simp add: reachesPropagate_def hostOnly_list hostOnly_scan rowA_def hostSrc_def
      selectFreshest_def zeroSource_def After_def zeroTime_def IsTokenExpired_def mkCreds_def)
     (simp add: hostOnly_def)

theorem propagate_stage_always_succeeds_witness:
  "reachesPropagate (hostOnly 2000 True) [rowA] (hostSrc 2000)
   \<and> result (runRefreshTokens (hostOnly 2000 True)) = Inr 1
   \<and> attempted (hostOnly 2000 True) (hostSrc 2000) [rowA] = 1"
proof -
  have r: "reachesPropagate (hostOnly 2000 True) [rowA] (hostSrc 2000)"
    by (rule hostOnly_reaches) simp
  have s: "succeeded (hostOnly 2000 True) (hostSrc 2000) [rowA] = 1"
    by (simp add: succeeded_def containerTargets_def hostSrc_def rowA_def Name_runningRow hostOnly_def)
  have a: "attempted (hostOnly 2000 True) (hostSrc 2000) [rowA] = 1"
    by (simp add: attempted_def containerTargets_def hostSrc_def rowA_def Name_runningRow)
  from propagate_stage_always_succeeds [OF r] s a r show ?thesis by simp
qed








lemma hostOnly_list': "listContainers (hostOnly x ok) = Inr [rowA]"
  by (simp add: hostOnly_list rowA_def)

lemma hostOnly_scan': "scanSources (hostOnly x ok) [rowA] = [hostSrc x]"
  by (simp add: hostOnly_scan rowA_def hostSrc_def)



lemma freshestLoop_keeps:
  "\<forall>s \<in> set post. expiresAt s \<le> expiresAt m \<Longrightarrow> freshestLoop m post = m"
  by (induction post) (auto simp: After_def)

lemma freshestLoop_first_max:
  assumes "\<forall>s \<in> set pre. expiresAt s < expiresAt m"
    and "\<forall>s \<in> set post. expiresAt s \<le> expiresAt m"
    and "expiresAt f < expiresAt m"
  shows "freshestLoop f (pre @ m # post) = m"
  using assms
proof (induction pre arbitrary: f)
  case Nil
  then show ?case by (simp add: After_def freshestLoop_keeps)
next
  case (Cons p pre)
  then show ?case by (auto simp: After_def)
qed

lemma selectFreshest_first_max:
  assumes "\<forall>s \<in> set pre. expiresAt s < expiresAt m"
    and "\<forall>s \<in> set post. expiresAt s \<le> expiresAt m"
    and "zeroTime < expiresAt m"
  shows "selectFreshest (pre @ m # post) = m"
  unfolding selectFreshest_def using assms
  by (intro freshestLoop_first_max) (simp_all add: zeroSource_def)

text \<open>
  C3. The selection loop starts from the zero value of \<open>tokenSource\<close> and replaces it
  only by a source that expires strictly after the zero instant. With one readable replica
  that expires at the zero instant (epoch milliseconds -62135596800000), the loop returns
  the zero value, which is no replica of the scan, and the pass then dereferences its nil
  credentials. (For a scan with a replica that expires after the zero instant,
  \<open>selectFreshest_first_max\<close> shows that the first replica of maximal expiry is
  returned.)
\<close>

theorem select_misses_year_one_replica:
  "scanSources (hostOnly (- 62135596800000) True) [rowA] = [hostSrc (- 62135596800000)]
   \<and> selectFreshest [hostSrc (- 62135596800000)] = zeroSource
   \<and> zeroSource \<noteq> hostSrc (- 62135596800000)
   \<and> result (runRefreshTokens (hostOnly (- 62135596800000) True)) = Inl NilDereference
   \<and> writes (runRefreshTokens (hostOnly (- 62135596800000) True)) = []"
proof -
  have s: "scanSources (hostOnly (- 62135596800000) True) [rowA] = [hostSrc (- 62135596800000)]"
    by (rule hostOnly_scan')
  have f: "selectFreshest [hostSrc (- 62135596800000)] = zeroSource"
    by (simp add: selectFreshest_def hostSrc_def zeroSource_def After_def zeroTime_def)
  have n: "zeroSource \<noteq> hostSrc (- 62135596800000)"
    by (simp add: zeroSource_def hostSrc_def)
  have r: "runRefreshTokens (hostOnly (- 62135596800000) True)
           = \<lparr>result = Inl NilDereference, writes = []\<rparr>"
    by (simp add: runRefreshTokens_def hostOnly_list' s f) (simp add: zeroSource_def)
  from s f n r show ?thesis by simp
qed

section \<open>The detail fetcher\<close>









end
